theory Spec2Isabelle
  imports Complex_Main "HOL-Library.Word" "HOL-Library.Sublist"
begin

text \<open>
  The assessment route of CheckaJob (\<open>src/app/api/assess/route.ts\<close>): the catalog
  \<open>KB\<close>, the classifier \<open>inferJob\<close>, the scorer \<open>assessFromKB\<close> and the handler
  \<open>POST\<close>, followed by the properties of the specification that concern them.
\<close>

section \<open>Strings and numbers of the runtime\<close>

text \<open>
  A JavaScript string is a sequence of 16-bit code units. \<open>js\<close> turns an ASCII literal
  into such a sequence; code units beyond ASCII are written as numbers
  (\<open>0x2011\<close> is the non-breaking hyphen and \<open>0x2019\<close> the right single quotation mark
  of the catalog's texts).
\<close>

type_synonym js_string = "16 word list"

definition js :: "string \<Rightarrow> js_string" where
  "js s = map of_char s"

text \<open>
  The numbers of the scorer are small integers, which the runtime's doubles represent
  exactly, and \<open>NaN\<close>, which arithmetic on a value that is not a number produces.
  Every comparison with \<open>NaN\<close> is false; \<open>Math.max\<close> and \<open>Math.min\<close> return
  \<open>NaN\<close> as soon as one argument is \<open>NaN\<close>.
\<close>

datatype number = Num int | NaN

fun add :: "number \<Rightarrow> number \<Rightarrow> number" where
  "add (Num a) (Num b) = Num (a + b)"
| "add _ _ = NaN"

fun sub :: "number \<Rightarrow> number \<Rightarrow> number" where
  "sub (Num a) (Num b) = Num (a - b)"
| "sub _ _ = NaN"

fun mul :: "number \<Rightarrow> number \<Rightarrow> number" where
  "mul (Num a) (Num b) = Num (a * b)"
| "mul _ _ = NaN"

fun lt :: "number \<Rightarrow> number \<Rightarrow> bool" where
  "lt (Num a) (Num b) = (a < b)"
| "lt _ _ = False"

fun gt :: "number \<Rightarrow> number \<Rightarrow> bool" where
  "gt (Num a) (Num b) = (a > b)"
| "gt _ _ = False"

fun Math_max :: "number \<Rightarrow> number \<Rightarrow> number" where
  "Math_max (Num a) (Num b) = Num (max a b)"
| "Math_max _ _ = NaN"

fun Math_min :: "number \<Rightarrow> number \<Rightarrow> number" where
  "Math_min (Num a) (Num b) = Num (min a b)"
| "Math_min _ _ = NaN"

section \<open>The store of arrays\<close>

text \<open>
  Arrays are objects: a field holding an array holds a reference to it. The store maps
  each address to the array's elements; \<open>lim\<close> is the next free address.
  \<open>new_array\<close> is an array literal, \<open>push\<close> and \<open>unshift\<close> are the methods of
  the same names. The store holds the arrays of the catalog and the \<open>rationale\<close> of the
  scorer; an array that is built and serialised on the spot is given by its elements.
\<close>

type_synonym addr = nat

record heap =
  arrays :: "addr \<Rightarrow> js_string list"
  lim :: addr

definition new_array :: "js_string list \<Rightarrow> heap \<Rightarrow> addr \<times> heap" where
  "new_array xs h = (lim h, h\<lparr>arrays := (arrays h)(lim h := xs), lim := Suc (lim h)\<rparr>)"

definition push :: "addr \<Rightarrow> js_string \<Rightarrow> heap \<Rightarrow> heap" where
  "push a s h = h\<lparr>arrays := (arrays h)(a := arrays h a @ [s])\<rparr>"

definition unshift :: "addr \<Rightarrow> js_string \<Rightarrow> heap \<Rightarrow> heap" where
  "unshift a s h = h\<lparr>arrays := (arrays h)(a := s # arrays h a)\<rparr>"

section \<open>The knowledge base (route.ts, lines 11-80)\<close>

datatype JobKey = hang_shelf | replace_tap_washer | paint_wall | fit_light_fixture

record RiskFlags =
  electrical :: bool
  plumbing :: bool
  structural :: bool
  workingAtHeight :: bool

record JobDefinition =
  name :: js_string
  baseDifficulty :: int
  risk :: RiskFlags
  steps :: addr
  tools :: addr
  materials :: addr
  safety :: addr

text \<open>The sixteen array literals of \<open>KB\<close>, in the order in which the module evaluates them.\<close>

definition hang_shelf_steps :: "js_string list" where
  "hang_shelf_steps =
    [js ''Locate studs or use appropriate wall anchors for your wall type.'',
     js ''Measure and mark level bracket positions.'',
     js ''Pre'' @ [0x2011] @ js ''drill pilot holes.'',
     js ''Fix brackets securely.'',
     js ''Place shelf and secure per instructions.'',
     js ''Load gradually and check for level.'']"

definition hang_shelf_tools :: "js_string list" where
  "hang_shelf_tools =
    [js ''Drill/driver'',
     js ''Level'',
     js ''Tape measure'',
     js ''Stud finder (or tapping method)'',
     js ''Screwdriver'']"

definition hang_shelf_materials :: "js_string list" where
  "hang_shelf_materials =
    [js ''Wall plugs/anchors'',
     js ''Screws'',
     js ''Shelf + brackets'']"

definition hang_shelf_safety :: "js_string list" where
  "hang_shelf_safety =
    [js ''Wear eye protection when drilling.'',
     js ''Use anchors that match wall type and load.'']"

definition replace_tap_washer_steps :: "js_string list" where
  "replace_tap_washer_steps =
    [js ''Isolate water supply (shut'' @ [0x2011] @ js ''off valve).'',
     js ''Open tap to relieve pressure.'',
     js ''Disassemble tap handle and bonnet.'',
     js ''Replace washer/O'' @ [0x2011] @ js ''ring with matching size.'',
     js ''Reassemble and restore water.'',
     js ''Check for leaks.'']"

definition replace_tap_washer_tools :: "js_string list" where
  "replace_tap_washer_tools =
    [js ''Adjustable spanner'',
     js ''Screwdrivers'',
     js ''Plumber'' @ [0x2019] @ js ''s grease'',
     js ''Allen keys'']"

definition replace_tap_washer_materials :: "js_string list" where
  "replace_tap_washer_materials =
    [js ''Correct size washer/O'' @ [0x2011] @ js ''ring'']"

definition replace_tap_washer_safety :: "js_string list" where
  "replace_tap_washer_safety =
    [js ''Double'' @ [0x2011] @ js ''check isolation valves.'',
     js ''Protect chrome surfaces to avoid scratching.'']"

definition paint_wall_steps :: "js_string list" where
  "paint_wall_steps =
    [js ''Fill holes and sand smooth; dust off.'',
     js ''Mask edges and cover floors/furniture.'',
     js ''Cut in edges with brush.'',
     js ''Roll first coat top'' @ [0x2011] @ js ''to'' @ [0x2011] @ js ''bottom.'',
     js ''Allow to dry; apply second coat.'',
     js ''Remove tape before fully dry for clean lines.'']"

definition paint_wall_tools :: "js_string list" where
  "paint_wall_tools =
    [js ''Roller + tray'',
     js ''Brush (2'' @ [0x22] @ js '')'',
     js ''Filler + sanding block'',
     js ''Dust sheet'',
     js ''Masking tape'']"

definition paint_wall_materials :: "js_string list" where
  "paint_wall_materials =
    [js ''Emulsion paint'',
     js ''Filler'']"

definition paint_wall_safety :: "js_string list" where
  "paint_wall_safety =
    [js ''Ventilate the room.'',
     js ''Use a stable step if needed; don'' @ [0x2019] @ js ''t overreach.'']"

definition fit_light_fixture_steps :: "js_string list" where
  "fit_light_fixture_steps =
    [js ''Isolate circuit at consumer unit and verify dead.'',
     js ''Note existing wiring configuration.'',
     js ''Connect live/neutral/earth per manufacturer and local regs.'',
     js ''Mount fixture securely.'',
     js ''Restore power and test.'']"

definition fit_light_fixture_tools :: "js_string list" where
  "fit_light_fixture_tools =
    [js ''Voltage tester'',
     js ''Screwdrivers'',
     js ''Wire strippers'',
     js ''Step ladder'']"

definition fit_light_fixture_materials :: "js_string list" where
  "fit_light_fixture_materials =
    [js ''Connector blocks/Wago'',
     js ''Light fixture'',
     js ''Fixings'']"

definition fit_light_fixture_safety :: "js_string list" where
  "fit_light_fixture_safety =
    [js ''If unsure about wiring identification or regs, use a qualified electrician.'',
     js ''Always prove dead before touching conductors.'']"

text \<open>
  The store once the module is loaded: the catalog's arrays at addresses 0 to 15, each
  job's \<open>steps\<close>, \<open>tools\<close>, \<open>materials\<close> and \<open>safety\<close> in turn.
\<close>

definition KB_heap :: heap where
  "KB_heap =
    \<lparr>arrays = (\<lambda>_. [])
       (0 := hang_shelf_steps, 1 := hang_shelf_tools,
        2 := hang_shelf_materials, 3 := hang_shelf_safety,
        4 := replace_tap_washer_steps, 5 := replace_tap_washer_tools,
        6 := replace_tap_washer_materials, 7 := replace_tap_washer_safety,
        8 := paint_wall_steps, 9 := paint_wall_tools,
        10 := paint_wall_materials, 11 := paint_wall_safety,
        12 := fit_light_fixture_steps, 13 := fit_light_fixture_tools,
        14 := fit_light_fixture_materials, 15 := fit_light_fixture_safety),
     lim = 16\<rparr>"

fun KB :: "JobKey \<Rightarrow> JobDefinition" where
  "KB hang_shelf =
    \<lparr>name = js ''Hang a Wall Shelf'', baseDifficulty = 4,
     risk = \<lparr>electrical = False, plumbing = False, structural = False, workingAtHeight = False\<rparr>,
     steps = 0, tools = 1, materials = 2, safety = 3\<rparr>"
| "KB replace_tap_washer =
    \<lparr>name = js ''Replace a Tap Washer'', baseDifficulty = 5,
     risk = \<lparr>electrical = False, plumbing = True, structural = False, workingAtHeight = False\<rparr>,
     steps = 4, tools = 5, materials = 6, safety = 7\<rparr>"
| "KB paint_wall =
    \<lparr>name = js ''Paint an Interior Wall'', baseDifficulty = 3,
     risk = \<lparr>electrical = False, plumbing = False, structural = False, workingAtHeight = False\<rparr>,
     steps = 8, tools = 9, materials = 10, safety = 11\<rparr>"
| "KB fit_light_fixture =
    \<lparr>name = js ''Fit a New Ceiling Light Fixture'', baseDifficulty = 7,
     risk = \<lparr>electrical = True, plumbing = False, structural = False, workingAtHeight = True\<rparr>,
     steps = 12, tools = 13, materials = 14, safety = 15\<rparr>"

text \<open>What the catalog's arrays hold when the module is loaded, by job key.\<close>

fun KB_steps :: "JobKey \<Rightarrow> js_string list" where
  "KB_steps hang_shelf = hang_shelf_steps"
| "KB_steps replace_tap_washer = replace_tap_washer_steps"
| "KB_steps paint_wall = paint_wall_steps"
| "KB_steps fit_light_fixture = fit_light_fixture_steps"

fun KB_tools :: "JobKey \<Rightarrow> js_string list" where
  "KB_tools hang_shelf = hang_shelf_tools"
| "KB_tools replace_tap_washer = replace_tap_washer_tools"
| "KB_tools paint_wall = paint_wall_tools"
| "KB_tools fit_light_fixture = fit_light_fixture_tools"

fun KB_materials :: "JobKey \<Rightarrow> js_string list" where
  "KB_materials hang_shelf = hang_shelf_materials"
| "KB_materials replace_tap_washer = replace_tap_washer_materials"
| "KB_materials paint_wall = paint_wall_materials"
| "KB_materials fit_light_fixture = fit_light_fixture_materials"

fun KB_safety :: "JobKey \<Rightarrow> js_string list" where
  "KB_safety hang_shelf = hang_shelf_safety"
| "KB_safety replace_tap_washer = replace_tap_washer_safety"
| "KB_safety paint_wall = paint_wall_safety"
| "KB_safety fit_light_fixture = fit_light_fixture_safety"

section \<open>Inputs and outputs (route.ts, lines 84-102)\<close>

text \<open>
  The parsed request body, as far as the handler reads it: each field is absent
  (\<open>None\<close>) or present. The model covers bodies whose \<open>description\<close>,
  \<open>skillLevel\<close> and \<open>postcode\<close> are strings when present; \<open>tags\<close> is
  \<open>Some\<close> exactly when the body holds an array there, taken to be an array of strings.
\<close>

record RequestBody =
  description :: "js_string option"
  skillLevel :: "js_string option"
  tags :: "js_string list option"
  postcode :: "js_string option"

text \<open>
  \<open>skillLevel\<close> is declared as one of three literals, but the handler fills it from the
  request body unchecked, so at run time it is any string. \<open>SkillLevel\<close> names the three
  valid values and \<open>level_name\<close> gives their text.
\<close>

record AssessmentInput =
  description :: js_string
  skillLevel :: js_string
  tags :: "js_string list option"
  postcode :: "js_string option"

datatype SkillLevel = novice | intermediate | advanced

fun level_name :: "SkillLevel \<Rightarrow> js_string" where
  "level_name novice = js ''novice''"
| "level_name intermediate = js ''intermediate''"
| "level_name advanced = js ''advanced''"

datatype Decision = DIY | Get_a_Pro

text \<open>
  The object that \<open>assessFromKB\<close> returns; it never sets \<open>durationMin\<close>, \<open>costLow\<close>
  or \<open>costHigh\<close>. Its array fields are references into the store.
\<close>

record AssessmentOutput =
  decision :: Decision
  score :: number
  rationale :: addr
  steps :: addr
  tools :: addr
  materials :: addr
  safety :: addr

section \<open>The scorer (route.ts, lines 120-157)\<close>

text \<open>
  Line 123 looks \<open>input.skillLevel\<close> up in the object literal
  \<open>{ novice: 1, intermediate: 2, advanced: 3 }\<close>. For any other string the lookup gives
  \<open>undefined\<close> or a property inherited from \<open>Object.prototype\<close>; \<open>skillNum\<close> is used
  only in \<open>skillNum < 3\<close> and \<open>skillNum - 1\<close>, where each of these converts to \<open>NaN\<close>.
\<close>

definition skillNum_of :: "js_string \<Rightarrow> number" where
  "skillNum_of s =
    (if s = js ''novice'' then Num 1
     else if s = js ''intermediate'' then Num 2
     else if s = js ''advanced'' then Num 3
     else NaN)"

text \<open>
  Lines 122-156, for the job that line 121 has looked up. The local \<open>score\<close> is
  threaded through the three risk tests together with the store, which holds the
  \<open>rationale\<close> array created on line 125.
\<close>

definition assessJob :: "JobDefinition \<Rightarrow> AssessmentInput \<Rightarrow> heap \<Rightarrow> AssessmentOutput \<times> heap" where
  "assessJob job input h0 =
    (let skillNum = skillNum_of (skillLevel input);
         score0 = Num (baseDifficulty job * 10);
         (rationale, h1) = new_array [] h0;
         (score1, h2) =
           (if electrical (risk job)
            then (add score0 (Num 20),
                  (let h = push rationale
                             (js ''Electrical work can be dangerous and may require certification.'') h1
                   in if lt skillNum (Num 3)
                      then push rationale
                             (js ''You indicated you are not advanced; electrical tasks are high risk.'') h
                      else h))
            else (score0, h1));
         (score2, h3) =
           (if plumbing (risk job)
            then (add score1 (Num 10),
                  push rationale
                    (js ''Plumbing jobs risk leaks and water damage if done incorrectly.'') h2)
            else (score1, h2));
         (score3, h4) =
           (if workingAtHeight (risk job)
            then (add score2 (Num 10),
                  push rationale (js ''Working at height increases the chance of falls.'') h3)
            else (score2, h3));
         score4 = Math_min (Num 100)
                    (Math_max (Num 1) (sub score3 (mul (sub skillNum (Num 1)) (Num 10))));
         decision = (if gt score4 (Num 60) then Get_a_Pro else DIY);
         h5 = (if decision = DIY
               then unshift rationale (js ''This task appears feasible for your skill level.'') h4
               else unshift rationale (js ''This task may be too challenging or risky for you.'') h4)
     in (\<lparr>decision = decision, score = score4, rationale = rationale,
          steps = JobDefinition.steps job, tools = JobDefinition.tools job,
          materials = JobDefinition.materials job, safety = JobDefinition.safety job\<rparr>, h5))"

definition assessFromKB :: "AssessmentInput \<Rightarrow> JobKey \<Rightarrow> heap \<Rightarrow> AssessmentOutput \<times> heap" where
  "assessFromKB input jobKey h = assessJob (KB jobKey) input h"

section \<open>The classifier (route.ts, lines 107-114)\<close>

text \<open>
  \<open>toLowerCase\<close>, as far as the classifier can observe it: the letters A to Z, and the
  two code units beyond ASCII whose lower case is or begins with an ASCII letter (U+0130,
  the dotted capital I, gives \<open>i\<close> and U+0307; U+212A, the Kelvin sign, gives \<open>k\<close>).
  Every other code unit is left as it is: the built-in function maps it to code units
  that are neither ASCII nor white space, which is all the patterns below can tell.
\<close>

definition lower_unit :: "16 word \<Rightarrow> js_string" where
  "lower_unit c =
    (if 0x41 \<le> c \<and> c \<le> 0x5A then [c + 0x20]
     else if c = 0x130 then [0x69, 0x307]
     else if c = 0x212A then [0x6B]
     else [c])"

definition toLowerCase :: "js_string \<Rightarrow> js_string" where
  "toLowerCase s = concat (map lower_unit s)"

fun join :: "js_string \<Rightarrow> js_string list \<Rightarrow> js_string" where
  "join sep [] = []"
| "join sep [x] = x"
| "join sep (x # y # ys) = x @ sep @ join sep (y # ys)"

text \<open>The class \<open>\s\<close> of a regular expression: white space and line terminators.\<close>

definition is_space :: "16 word \<Rightarrow> bool" where
  "is_space c =
    (c = 0x09 \<or> c = 0x0A \<or> c = 0x0B \<or> c = 0x0C \<or> c = 0x0D \<or> c = 0x20 \<or> c = 0xA0
     \<or> c = 0x1680 \<or> (0x2000 \<le> c \<and> c \<le> 0x200A) \<or> c = 0x2028 \<or> c = 0x2029
     \<or> c = 0x202F \<or> c = 0x205F \<or> c = 0x3000 \<or> c = 0xFEFF)"

text \<open>
  The four regular expressions are alternations of sequences of literal characters and,
  in one place, \<open>\s?\<close>. \<open>match_here p t\<close> matches the sequence \<open>p\<close> at the start of
  \<open>t\<close>; \<open>matches ps t\<close> is \<open>t.match(/(p1|...|pn)/)\<close> read as a truth value: some
  alternative matches at some position of \<open>t\<close>.
\<close>

datatype atom = Lit "16 word" | OptSpace

fun match_here :: "atom list \<Rightarrow> js_string \<Rightarrow> bool" where
  "match_here [] t = True"
| "match_here (Lit c # p) [] = False"
| "match_here (Lit c # p) (d # t) = (c = d \<and> match_here p t)"
| "match_here (OptSpace # p) [] = match_here p []"
| "match_here (OptSpace # p) (d # t) = ((is_space d \<and> match_here p t) \<or> match_here p (d # t))"

fun match_any :: "atom list list \<Rightarrow> js_string \<Rightarrow> bool" where
  "match_any [] t = False"
| "match_any (p # ps) t = (match_here p t \<or> match_any ps t)"

fun matches :: "atom list list \<Rightarrow> js_string \<Rightarrow> bool" where
  "matches ps [] = match_any ps []"
| "matches ps (c # t) = (match_any ps (c # t) \<or> matches ps t)"

definition lit :: "string \<Rightarrow> atom list" where
  "lit s = map Lit (js s)"

definition shelf_re :: "atom list list" where
  "shelf_re = [lit ''shelf'', lit ''bracket'', lit ''wall anchor'']"

definition tap_re :: "atom list list" where
  "tap_re = [lit ''tap'', lit ''washer'', lit ''o'' @ [OptSpace] @ lit ''ring'']"

definition paint_re :: "atom list list" where
  "paint_re = [lit ''paint'', lit ''roller'', lit ''brush'']"

definition light_re :: "atom list list" where
  "light_re = [lit ''light'', lit ''fixture'', lit ''ceiling'']"

text \<open>Line 108: the text that the patterns are tested on.\<close>

definition text_of :: "AssessmentInput \<Rightarrow> js_string" where
  "text_of input =
    toLowerCase (description input @ js '' '' @
                 join (js '' '') (case tags input of None \<Rightarrow> [] | Some ts \<Rightarrow> ts))"

definition inferJob :: "AssessmentInput \<Rightarrow> JobKey option" where
  "inferJob input =
    (let text = text_of input
     in if matches shelf_re text then Some hang_shelf
        else if matches tap_re text then Some replace_tap_washer
        else if matches paint_re text then Some paint_wall
        else if matches light_re text then Some fit_light_fixture
        else None)"

section \<open>The request handler (route.ts, lines 161-224)\<close>

text \<open>
  A response body is a JSON value: \<open>NextResponse.json\<close> serialises its argument, and
  the body is modelled as the value serialised. A number that is \<open>NaN\<close> is serialised
  as \<open>null\<close>.
\<close>

datatype json =
    JNull
  | JBool bool
  | JNumber rat
  | JString js_string
  | JArray "json list"
  | JObject "(js_string \<times> json) list"

record Response =
  body :: json
  status :: nat

definition NextResponse_json :: "json \<Rightarrow> Response" where
  "NextResponse_json j = \<lparr>body = j, status = 200\<rparr>"

fun json_of_number :: "number \<Rightarrow> json" where
  "json_of_number (Num n) = JNumber (of_int n)"
| "json_of_number NaN = JNull"

fun json_of_decision :: "Decision \<Rightarrow> json" where
  "json_of_decision DIY = JString (js ''DIY'')"
| "json_of_decision Get_a_Pro = JString (js ''Get a Pro'')"

definition json_of_array :: "heap \<Rightarrow> addr \<Rightarrow> json" where
  "json_of_array h a = JArray (map JString (arrays h a))"

definition json_of_output :: "heap \<Rightarrow> AssessmentOutput \<Rightarrow> json" where
  "json_of_output h out =
    JObject
      [(js ''decision'', json_of_decision (decision out)),
       (js ''score'', json_of_number (score out)),
       (js ''rationale'', json_of_array h (rationale out)),
       (js ''steps'', json_of_array h (steps out)),
       (js ''tools'', json_of_array h (tools out)),
       (js ''materials'', json_of_array h (materials out)),
       (js ''safety'', json_of_array h (safety out))]"

text \<open>
  What the handler takes from its environment: the variable \<open>OPENAI_API_KEY\<close>
  (\<open>None\<close> when unset), the provider's answer to the one request the handler sends
  (given the key, the system prompt and the user prompt), and \<open>JSON.parse\<close>
  (\<open>None\<close> when it throws). The answer is either an exception (of the client's
  construction or of the call) or the value of
  \<open>chatResponse.choices?.[0]?.message?.content\<close>, \<open>None\<close> when that is undefined or null.
\<close>

datatype completion = Throws | Content "js_string option"

record env =
  OPENAI_API_KEY :: "js_string option"
  create :: "js_string \<Rightarrow> js_string \<Rightarrow> js_string \<Rightarrow> completion"
  JSON_parse :: "js_string \<Rightarrow> json option"

definition systemPrompt :: js_string where
  "systemPrompt =
    js ''You are CheckaJob, a cautious UK DIY assessor. You must be practical and risk'' @ [0x2011] @ js ''aware. Prefer safety and clarity over bravado. Output strict JSON with the exact keys: decision, score, rationale, steps, tools, materials, safety, durationMin, costLow, costHigh.''"

definition userPrompt :: "AssessmentInput \<Rightarrow> js_string" where
  "userPrompt input =
    js ''Description: '' @ description input @ [0x0A] @
    js ''Skill level: '' @ skillLevel input @ [0x0A] @
    js ''Photo tags (if any): '' @
    join (js '', '') (filter (\<lambda>t. t \<noteq> []) (case tags input of None \<Rightarrow> [] | Some ts \<Rightarrow> ts)) @ [0x0A] @
    js ''Constraints: UK terminology, metric units, cautious tone.'' @ [0x0A] @
    js ''Scoring: 0 (trivial) to 100 (expert). DIY only if appropriate for the provided skill level.''"

text \<open>
  Lines 163-168. \<open>a || b\<close> on an optional string: \<open>b\<close> when \<open>a\<close> is absent or empty.
\<close>

definition or_default :: "js_string option \<Rightarrow> js_string \<Rightarrow> js_string" where
  "or_default a b = (case a of None \<Rightarrow> b | Some s \<Rightarrow> if s = [] then b else s)"

definition normalise :: "RequestBody \<Rightarrow> AssessmentInput" where
  "normalise b =
    \<lparr>description = or_default (RequestBody.description b) [],
     skillLevel = or_default (RequestBody.skillLevel b) (js ''novice''),
     tags = Some (case RequestBody.tags b of Some ts \<Rightarrow> ts | None \<Rightarrow> []),
     postcode = RequestBody.postcode b\<rparr>"

text \<open>
  Lines 170-199: \<open>Some j\<close> when the handler returns the provider's parsed answer \<open>j\<close> on
  line 191, \<open>None\<close> when control reaches line 200.
\<close>

definition provider_path :: "env \<Rightarrow> AssessmentInput \<Rightarrow> json option" where
  "provider_path e input =
    (case OPENAI_API_KEY e of
       None \<Rightarrow> None
     | Some apiKey \<Rightarrow>
         if apiKey = [] then None
         else (case create e apiKey systemPrompt (userPrompt input) of
                 Throws \<Rightarrow> None
               | Content None \<Rightarrow> None
               | Content (Some content) \<Rightarrow>
                   if content = [] then None else JSON_parse e content))"

text \<open>Lines 207-223: the answer for a description that no pattern matches.\<close>

definition unknown_job :: Response where
  "unknown_job =
    \<lparr>body = JObject
       [(js ''decision'', JString (js ''Get a Pro'')),
        (js ''score'', JNumber 75),
        (js ''rationale'',
           JArray [JString (js ''Unable to match your description to our known jobs.''),
                   JString (js ''For ambiguous or unknown tasks, we err on the side of caution.'')]),
        (js ''steps'', JArray []),
        (js ''tools'', JArray []),
        (js ''materials'', JArray []),
        (js ''safety'',
           JArray [JString (js ''Please consult a professional or provide more details to get specific advice.'')])],
     status = 200\<rparr>"

text \<open>
  Lines 200-223, the fallback to the knowledge base, on the store \<open>h\<close>; it returns the
  response and the store it leaves.
\<close>

definition knowledge_base_path :: "AssessmentInput \<Rightarrow> heap \<Rightarrow> Response \<times> heap" where
  "knowledge_base_path input h =
    (case inferJob input of
       Some jobKey \<Rightarrow>
         (let (assessment, h') = assessFromKB input jobKey h
          in (NextResponse_json (json_of_output h' assessment), h'))
     | None \<Rightarrow> (unknown_job, h))"

text \<open>The handler, on the store \<open>h\<close> in which the request finds the module.\<close>

definition POST :: "env \<Rightarrow> RequestBody \<Rightarrow> heap \<Rightarrow> Response \<times> heap" where
  "POST e b h =
    (let input = normalise b
     in case provider_path e input of
          Some j \<Rightarrow> (NextResponse_json j, h)
        | None \<Rightarrow> knowledge_base_path input h)"

section \<open>Notions used to state the properties\<close>

text \<open>The ordinal of a valid skill level: novice 1, intermediate 2, advanced 3.\<close>

fun skill_ordinal :: "SkillLevel \<Rightarrow> int" where
  "skill_ordinal novice = 1"
| "skill_ordinal intermediate = 2"
| "skill_ordinal advanced = 3"

text \<open>
  A store in which the catalog is loaded: it agrees with \<open>KB_heap\<close> on the catalog's
  sixteen addresses, and its free addresses lie beyond them.
\<close>

definition catalog_loaded :: "heap \<Rightarrow> bool" where
  "catalog_loaded h =
    (lim KB_heap \<le> lim h \<and> map (arrays h) [0..<16] = map (arrays KB_heap) [0..<16])"

text \<open>
  The catalog's keys in declaration order, and for each key the pattern whose test
  returns it in \<open>inferJob\<close>.
\<close>

definition catalog_order :: "JobKey list" where
  "catalog_order = [hang_shelf, replace_tap_washer, paint_wall, fit_light_fixture]"

fun keyword_pattern :: "JobKey \<Rightarrow> atom list list" where
  "keyword_pattern hang_shelf = shelf_re"
| "keyword_pattern replace_tap_washer = tap_re"
| "keyword_pattern paint_wall = paint_re"
| "keyword_pattern fit_light_fixture = light_re"

text \<open>The value of a key of a JSON object.\<close>

fun json_get :: "js_string \<Rightarrow> json \<Rightarrow> json option" where
  "json_get k (JObject fs) = map_of fs k"
| "json_get k _ = None"

text \<open>
  The AssessmentOutput shape as the specification words it: an object whose
  \<open>decision\<close> is "DIY" or "Get a Pro", whose \<open>score\<close> is a number, and whose
  \<open>rationale\<close>, \<open>steps\<close>, \<open>tools\<close>, \<open>materials\<close> and \<open>safety\<close> are arrays of
  strings. The handler has no such test; the notion serves to state what it does with
  an answer of another shape.
\<close>

fun is_string :: "json \<Rightarrow> bool" where
  "is_string (JString s) = True"
| "is_string _ = False"

fun is_string_array :: "json option \<Rightarrow> bool" where
  "is_string_array (Some (JArray xs)) = list_all is_string xs"
| "is_string_array _ = False"

fun is_decision :: "json option \<Rightarrow> bool" where
  "is_decision (Some (JString s)) = (s = js ''DIY'' \<or> s = js ''Get a Pro'')"
| "is_decision _ = False"

fun is_number :: "json option \<Rightarrow> bool" where
  "is_number (Some (JNumber n)) = True"
| "is_number _ = False"

definition has_AssessmentOutput_shape :: "json \<Rightarrow> bool" where
  "has_AssessmentOutput_shape j =
    (is_decision (json_get (js ''decision'') j)
     \<and> is_number (json_get (js ''score'') j)
     \<and> is_string_array (json_get (js ''rationale'') j)
     \<and> is_string_array (json_get (js ''steps'') j)
     \<and> is_string_array (json_get (js ''tools'') j)
     \<and> is_string_array (json_get (js ''materials'') j)
     \<and> is_string_array (json_get (js ''safety'') j))"

text \<open>The positions at which \<open>w\<close> occurs in \<open>t\<close>, counted from \<open>i\<close>.\<close>

fun occurrences :: "js_string \<Rightarrow> js_string \<Rightarrow> nat \<Rightarrow> nat list" where
  "occurrences w [] i = (if w = [] then [i] else [])"
| "occurrences w (c # t) i = (if prefix w (c # t) then [i] else []) @ occurrences w t (i + 1)"

section \<open>Concrete inputs\<close>

definition blank_input :: AssessmentInput where
  "blank_input = \<lparr>description = [], skillLevel = [], tags = None, postcode = None\<rparr>"

text \<open>A job definition outside the catalog, with the highest difficulty and every risk.\<close>

definition all_risks_job :: JobDefinition where
  "all_risks_job =
    \<lparr>name = js ''Rewire a bathroom'', baseDifficulty = 10,
     risk = \<lparr>electrical = True, plumbing = True, structural = True, workingAtHeight = True\<rparr>,
     steps = 0, tools = 1, materials = 2, safety = 3\<rparr>"

text \<open>An environment without a provider key.\<close>

definition no_provider :: env where
  "no_provider =
    \<lparr>OPENAI_API_KEY = None, create = (\<lambda>key sys usr. Throws), JSON_parse = (\<lambda>c. None)\<rparr>"

text \<open>
  An environment with a provider key, in which the provider answers every request with
  the text \<open>{}\<close>; \<open>JSON_parse\<close> is given at that text, where \<open>JSON.parse\<close> returns
  the empty object.
\<close>

definition empty_object_provider :: env where
  "empty_object_provider =
    \<lparr>OPENAI_API_KEY = Some (js ''sk-test''),
     create = (\<lambda>key sys usr. Content (Some (js ''{}''))),
     JSON_parse = (\<lambda>c. if c = js ''{}'' then Some (JObject []) else None)\<rparr>"

definition unknown_body :: RequestBody where
  "unknown_body =
    \<lparr>RequestBody.description = Some (js ''quantum entanglement repair''),
     skillLevel = Some (js ''novice''), tags = None, postcode = None\<rparr>"

definition shelf_body :: RequestBody where
  "shelf_body =
    \<lparr>RequestBody.description = Some (js ''I need to hang a shelf in my bedroom''),
     skillLevel = Some (js ''novice''), tags = Some [], postcode = None\<rparr>"

definition light_body :: "string \<Rightarrow> RequestBody" where
  "light_body level =
    \<lparr>RequestBody.description = Some (js ''replace a ceiling light fixture''),
     skillLevel = Some (js level), tags = None, postcode = None\<rparr>"

definition shelf_tap_input :: AssessmentInput where
  "shelf_tap_input =
    \<lparr>description = js ''Put up a SHELF'', skillLevel = js ''novice'',
     tags = Some [js ''above'', js ''the Tap''], postcode = None\<rparr>"

definition tape_input :: AssessmentInput where
  "tape_input =
    \<lparr>description = js ''use masking tape before you paint the wall'',
     skillLevel = js ''novice'', tags = Some [], postcode = None\<rparr>"

section \<open>Facts about the scorer\<close>

lemma skillNum_of_level_name: "skillNum_of (level_name s) = Num (skill_ordinal s)"
  by (cases s) (simp_all add: skillNum_of_def js_def)

lemma assessJob_score:
  "score (fst (assessJob job input h)) =
     Math_min (Num 100) (Math_max (Num 1)
       (sub (Num (baseDifficulty job * 10
                  + (if electrical (risk job) then 20 else 0)
                  + (if plumbing (risk job) then 10 else 0)
                  + (if workingAtHeight (risk job) then 10 else 0)))
            (mul (sub (skillNum_of (skillLevel input)) (Num 1)) (Num 10))))"
  by (simp add: assessJob_def Let_def new_array_def)

lemma assessJob_decision:
  "decision (fst (assessJob job input h)) =
     (if gt (score (fst (assessJob job input h))) (Num 60) then Get_a_Pro else DIY)"
  by (simp add: assessJob_def Let_def new_array_def)

lemma assessJob_refs:
  "rationale (fst (assessJob job input h)) = lim h"
  "steps (fst (assessJob job input h)) = JobDefinition.steps job"
  "tools (fst (assessJob job input h)) = JobDefinition.tools job"
  "materials (fst (assessJob job input h)) = JobDefinition.materials job"
  "safety (fst (assessJob job input h)) = JobDefinition.safety job"
  by (simp_all add: assessJob_def Let_def new_array_def)

lemma assessJob_lim: "lim (snd (assessJob job input h)) = Suc (lim h)"
  by (simp add: assessJob_def Let_def new_array_def push_def unshift_def)

lemma assessJob_arrays_old:
  "a \<noteq> lim h \<Longrightarrow> arrays (snd (assessJob job input h)) a = arrays h a"
  by (simp add: assessJob_def Let_def new_array_def push_def unshift_def)

lemma assessJob_rationale:
  "arrays (snd (assessJob job input h)) (lim h) =
     (if decision (fst (assessJob job input h)) = DIY
      then js ''This task appears feasible for your skill level.''
      else js ''This task may be too challenging or risky for you.'')
     # (if electrical (risk job)
        then js ''Electrical work can be dangerous and may require certification.''
             # (if lt (skillNum_of (skillLevel input)) (Num 3)
                then [js ''You indicated you are not advanced; electrical tasks are high risk.'']
                else [])
        else [])
     @ (if plumbing (risk job)
        then [js ''Plumbing jobs risk leaks and water damage if done incorrectly.'']
        else [])
     @ (if workingAtHeight (risk job)
        then [js ''Working at height increases the chance of falls.'']
        else [])"
  by (simp add: assessJob_def Let_def new_array_def push_def unshift_def)

section \<open>Facts about the store\<close>

lemma KB_heap_arrays:
  "arrays KB_heap (JobDefinition.steps (KB k)) = KB_steps k"
  "arrays KB_heap (JobDefinition.tools (KB k)) = KB_tools k"
  "arrays KB_heap (JobDefinition.materials (KB k)) = KB_materials k"
  "arrays KB_heap (JobDefinition.safety (KB k)) = KB_safety k"
  by (cases k; simp add: KB_heap_def)+

lemma KB_addresses:
  "JobDefinition.steps (KB k) < 16" "JobDefinition.tools (KB k) < 16"
  "JobDefinition.materials (KB k) < 16" "JobDefinition.safety (KB k) < 16"
  by (cases k; simp)+

lemma catalog_loaded_KB_heap: "catalog_loaded KB_heap"
  by (simp add: catalog_loaded_def)

lemma catalog_loaded_lim: "catalog_loaded h \<Longrightarrow> 16 \<le> lim h"
  by (simp add: catalog_loaded_def KB_heap_def)

lemma catalog_loaded_arrays:
  assumes "catalog_loaded h" and "a < 16"
  shows "arrays h a = arrays KB_heap a"
proof -
  from assms(1) have "map (arrays h) [0..<16] = map (arrays KB_heap) [0..<16]"
    by (simp add: catalog_loaded_def)
  then have "\<forall>x \<in> set [0..<16]. arrays h x = arrays KB_heap x"
    by (simp only: map_eq_conv)
  with assms(2) show ?thesis by simp
qed

lemma assessJob_keeps_catalog:
  assumes "catalog_loaded h" and "a < 16"
  shows "arrays (snd (assessJob job input h)) a = arrays KB_heap a"
proof -
  from assms have "a \<noteq> lim h"
    using catalog_loaded_lim [of h] by simp
  then show ?thesis
    by (simp add: assessJob_arrays_old catalog_loaded_arrays [OF assms])
qed

text \<open>The scorer leaves the catalog as it finds it.\<close>

lemma assessJob_catalog_loaded:
  assumes "catalog_loaded h"
  shows "catalog_loaded (snd (assessJob job input h))"
proof -
  have "\<forall>a \<in> set [0..<16]. arrays (snd (assessJob job input h)) a = arrays KB_heap a"
    using assessJob_keeps_catalog [OF assms] by simp
  then have "map (arrays (snd (assessJob job input h))) [0..<16] = map (arrays KB_heap) [0..<16]"
    by (simp only: map_eq_conv)
  moreover from assms have "lim KB_heap \<le> lim (snd (assessJob job input h))"
    by (simp add: assessJob_lim catalog_loaded_def)
  ultimately show ?thesis
    by (simp only: catalog_loaded_def)
qed

section \<open>Facts about the classifier\<close>

lemma match_here_lits: "match_here (map Lit w) t = prefix w t"
  by (induction w arbitrary: t) (auto simp: prefix_Cons split: list.splits, (case_tac t; simp)+)

lemma matches_iff: "matches ps t = (\<exists>u v. t = u @ v \<and> match_any ps v)"
proof (induction t)
  case Nil
  then show ?case by simp
next
  case (Cons c t)
  show ?case
  proof
    assume "matches ps (c # t)"
    then consider "match_any ps (c # t)" | "matches ps t" by auto
    then show "\<exists>u v. c # t = u @ v \<and> match_any ps v"
    proof cases
      case 1
      then have "c # t = [] @ (c # t) \<and> match_any ps (c # t)" by simp
      then show ?thesis by blast
    next
      case 2
      with Cons obtain u v where "t = u @ v" "match_any ps v" by auto
      then have "c # t = (c # u) @ v \<and> match_any ps v" by simp
      then show ?thesis by blast
    qed
  next
    assume "\<exists>u v. c # t = u @ v \<and> match_any ps v"
    then obtain u v where uv: "c # t = u @ v" "match_any ps v" by auto
    show "matches ps (c # t)"
    proof (cases u)
      case Nil
      with uv have "v = c # t" by simp
      with uv show ?thesis by simp
    next
      case (Cons d u')
      with uv have "t = u' @ v" by simp
      with uv Cons.IH have "matches ps t" by auto
      then show ?thesis by simp
    qed
  qed
qed

lemma sublist_iff_prefix_at: "sublist w t = (\<exists>u v. t = u @ v \<and> prefix w v)"
  by (auto simp: sublist_def prefix_def)

lemma matches_lits:
  "matches [map Lit a, map Lit b, map Lit c] t = (sublist a t \<or> sublist b t \<or> sublist c t)"
  by (auto simp: matches_iff sublist_iff_prefix_at match_here_lits)

lemma match_here_o_ring:
  "match_here (Lit a # OptSpace # map Lit w) t =
     (prefix (a # w) t \<or> (\<exists>c. is_space c \<and> prefix (a # c # w) t))"
proof (cases t)
  case Nil
  then show ?thesis by simp
next
  case (Cons d t')
  show ?thesis
  proof (cases t')
    case Nil
    with Cons show ?thesis by (cases w) (auto simp: match_here_lits)
  next
    case (Cons d' t'')
    with \<open>t = d # t'\<close> show ?thesis
      by (auto simp: match_here_lits)
  qed
qed

lemma shelf_re_iff:
  "matches shelf_re t =
     (sublist (js ''shelf'') t \<or> sublist (js ''bracket'') t \<or> sublist (js ''wall anchor'') t)"
  unfolding shelf_re_def lit_def by (rule matches_lits)

lemma paint_re_iff:
  "matches paint_re t =
     (sublist (js ''paint'') t \<or> sublist (js ''roller'') t \<or> sublist (js ''brush'') t)"
  unfolding paint_re_def lit_def by (rule matches_lits)

lemma light_re_iff:
  "matches light_re t =
     (sublist (js ''light'') t \<or> sublist (js ''fixture'') t \<or> sublist (js ''ceiling'') t)"
  unfolding light_re_def lit_def by (rule matches_lits)

lemma tap_re_iff:
  "matches tap_re t =
     (sublist (js ''tap'') t \<or> sublist (js ''washer'') t \<or> sublist (js ''oring'') t
      \<or> (\<exists>c. is_space c \<and> sublist (js ''o'' @ [c] @ js ''ring'') t))"
proof -
  have re: "tap_re = [map Lit (js ''tap''), map Lit (js ''washer''),
                      Lit 0x6F # OptSpace # map Lit (js ''ring'')]"
    by (simp add: tap_re_def lit_def js_def)
  have o: "js ''oring'' = 0x6F # js ''ring''" "\<And>c. js ''o'' @ [c] @ js ''ring'' = 0x6F # c # js ''ring''"
    by (simp_all add: js_def)
  show ?thesis
    unfolding re o
    by (auto simp: matches_iff sublist_iff_prefix_at match_here_lits match_here_o_ring)
qed

lemma toLowerCase_units:
  "toLowerCase s =
     concat (map (\<lambda>c. if 0x41 \<le> c \<and> c \<le> 0x5A then [c + 0x20]
                       else if c = 0x130 then [0x69, 0x307]
                       else if c = 0x212A then [0x6B]
                       else [c]) s)"
  by (simp add: toLowerCase_def lower_unit_def [abs_def])

lemma join_Cons: "join sep (t # ts) = t @ concat (map (\<lambda>u. sep @ u) ts)"
  by (induction ts arbitrary: t) simp_all

lemma join_separated:
  "join sep ts = (case ts of [] \<Rightarrow> [] | t # ts' \<Rightarrow> t @ concat (map (\<lambda>u. sep @ u) ts'))"
  by (cases ts) (simp_all add: join_Cons)

lemma inferJob_substrings:
  "inferJob input =
     (if sublist (js ''shelf'') (text_of input) \<or> sublist (js ''bracket'') (text_of input)
         \<or> sublist (js ''wall anchor'') (text_of input)
      then Some hang_shelf
      else if sublist (js ''tap'') (text_of input) \<or> sublist (js ''washer'') (text_of input)
              \<or> sublist (js ''oring'') (text_of input)
              \<or> (\<exists>c. is_space c \<and> sublist (js ''o'' @ [c] @ js ''ring'') (text_of input))
      then Some replace_tap_washer
      else if sublist (js ''paint'') (text_of input) \<or> sublist (js ''roller'') (text_of input)
              \<or> sublist (js ''brush'') (text_of input)
      then Some paint_wall
      else if sublist (js ''light'') (text_of input) \<or> sublist (js ''fixture'') (text_of input)
              \<or> sublist (js ''ceiling'') (text_of input)
      then Some fit_light_fixture
      else None)"
  unfolding inferJob_def Let_def shelf_re_iff tap_re_iff paint_re_iff light_re_iff ..

lemma text_of_shelf_tap_input:
  "text_of shelf_tap_input = js ''put up a '' @ js ''shelf'' @ js '' above the '' @ js ''tap'' @ []"
  by (simp add: text_of_def shelf_tap_input_def toLowerCase_def lower_unit_def js_def)

lemma text_of_tape_input:
  "text_of tape_input = js ''use masking tape before you paint the wall ''"
  by (simp add: text_of_def tape_input_def toLowerCase_def lower_unit_def js_def)

lemma tape_no_shelf: "\<not> matches shelf_re (text_of tape_input)"
  unfolding text_of_tape_input by (simp add: shelf_re_def lit_def js_def)

lemma tape_paint: "matches paint_re (text_of tape_input)"
  unfolding text_of_tape_input by (simp add: paint_re_def lit_def js_def)

lemma tape_occurrences: "occurrences (js ''tap'') (text_of tape_input) 0 = [12]"
  unfolding text_of_tape_input by (simp add: js_def)

lemma tape_word: "take 6 (drop 11 (text_of tape_input)) = js '' tape ''"
  unfolding text_of_tape_input by (simp add: js_def)

section \<open>Facts about the handler\<close>

lemma POST_provider:
  "provider_path e (normalise b) = Some j \<Longrightarrow> POST e b h = (NextResponse_json j, h)"
  by (simp add: POST_def)

lemma POST_fallback:
  "provider_path e (normalise b) = None \<Longrightarrow> POST e b h = knowledge_base_path (normalise b) h"
  by (simp add: POST_def)

lemma provider_path_no_key: "OPENAI_API_KEY e = None \<Longrightarrow> provider_path e input = None"
  by (simp add: provider_path_def)

lemma provider_path_key:
  assumes "OPENAI_API_KEY e = Some key" and "key \<noteq> []"
  shows "provider_path e input =
    (case create e key systemPrompt (userPrompt input) of
       Throws \<Rightarrow> None
     | Content None \<Rightarrow> None
     | Content (Some c) \<Rightarrow> if c = [] then None else JSON_parse e c)"
  using assms by (simp add: provider_path_def)

lemma knowledge_base_path_match:
  "inferJob input = Some k \<Longrightarrow>
   fst (knowledge_base_path input h) =
     NextResponse_json (json_of_output (snd (assessFromKB input k h)) (fst (assessFromKB input k h)))"
  by (simp add: knowledge_base_path_def split_beta)

lemma knowledge_base_path_unknown:
  "inferJob input = None \<Longrightarrow> knowledge_base_path input h = (unknown_job, h)"
  by (simp add: knowledge_base_path_def)

text \<open>No request changes the catalog: a store with the catalog loaded stays so.\<close>

lemma POST_catalog_loaded:
  assumes "catalog_loaded h"
  shows "catalog_loaded (snd (POST e b h))"
proof (cases "provider_path e (normalise b)")
  case (Some j)
  with assms show ?thesis by (simp add: POST_provider)
next
  case None
  show ?thesis
  proof (cases "inferJob (normalise b)")
    case None
    with \<open>provider_path e (normalise b) = None\<close> assms show ?thesis
      by (simp add: POST_fallback knowledge_base_path_unknown)
  next
    case (Some k)
    with \<open>provider_path e (normalise b) = None\<close> assessJob_catalog_loaded [OF assms]
    show ?thesis
      by (simp add: POST_fallback knowledge_base_path_def assessFromKB_def split_beta)
  qed
qed

lemma empty_object_provider_simps:
  "OPENAI_API_KEY empty_object_provider = Some (js ''sk-test'')"
  "create empty_object_provider key sys usr = Content (Some (js ''{}''))"
  "JSON_parse empty_object_provider (js ''{}'') = Some (JObject [])"
  by (simp_all add: empty_object_provider_def)

lemma text_of_unknown_body:
  "text_of (normalise unknown_body) = js ''quantum entanglement repair ''"
  by (simp add: text_of_def normalise_def or_default_def unknown_body_def toLowerCase_def
      lower_unit_def js_def)

lemma text_of_shelf_body:
  "text_of (normalise shelf_body) = js ''i need to hang a shelf in my bedroom ''"
  by (simp add: text_of_def normalise_def or_default_def shelf_body_def toLowerCase_def
      lower_unit_def js_def)

lemma inferJob_shelf_body: "inferJob (normalise shelf_body) = Some hang_shelf"
  unfolding inferJob_def text_of_shelf_body by (simp add: shelf_re_def lit_def js_def)

lemma text_of_light_body:
  "text_of (normalise (light_body level)) = js ''replace a ceiling light fixture ''"
  by (simp add: text_of_def normalise_def or_default_def light_body_def toLowerCase_def
      lower_unit_def js_def)

lemma inferJob_light_body: "inferJob (normalise (light_body level)) = Some fit_light_fixture"
  unfolding inferJob_def text_of_light_body
  by (simp add: shelf_re_def tap_re_def paint_re_def light_re_def lit_def js_def is_space_def)

lemma light_body_response:
  "body (fst (POST no_provider (light_body level) KB_heap)) =
     json_of_output
       (snd (assessFromKB (normalise (light_body level)) fit_light_fixture KB_heap))
       (fst (assessFromKB (normalise (light_body level)) fit_light_fixture KB_heap))"
proof -
  have "provider_path no_provider (normalise (light_body level)) = None"
    by (simp add: provider_path_no_key no_provider_def)
  then show ?thesis
    by (simp add: POST_fallback knowledge_base_path_match [OF inferJob_light_body]
        NextResponse_json_def)
qed

lemma json_get_output:
  "json_get (js ''decision'') (json_of_output h out) = Some (json_of_decision (decision out))"
  "json_get (js ''score'') (json_of_output h out) = Some (json_of_number (score out))"
  by (simp_all add: json_of_output_def js_def)

lemma skillLevel_light_body:
  "AssessmentInput.skillLevel (normalise (light_body ''expert'')) = js ''expert''"
  "AssessmentInput.skillLevel (normalise (light_body ''novice'')) = js ''novice''"
  by (simp_all add: normalise_def light_body_def or_default_def js_def)

text \<open>
  A body whose \<open>skillLevel\<close> is absent or empty is handled as the same body with
  \<open>skillLevel\<close> "novice", whatever the environment.
\<close>

lemma missing_skillLevel_is_novice:
  assumes "RequestBody.skillLevel b = None \<or> RequestBody.skillLevel b = Some []"
  shows "POST e b h = POST e (b\<lparr>RequestBody.skillLevel := Some (js ''novice'')\<rparr>) h"
proof -
  have "js ''novice'' \<noteq> []" by (simp add: js_def)
  with assms have "normalise b = normalise (b\<lparr>RequestBody.skillLevel := Some (js ''novice'')\<rparr>)"
    by (auto simp: normalise_def or_default_def)
  then show ?thesis by (simp add: POST_def)
qed

section \<open>The properties\<close>

text \<open>
  C1. For every catalog job and every valid skill level, the score is
  \<open>baseDifficulty * 10\<close>, plus 20 if the job's electrical flag is set, plus 10 if its
  plumbing flag is set, plus 10 if its workingAtHeight flag is set, minus
  \<open>(skillNum - 1) * 10\<close> with novice 1, intermediate 2 and advanced 3, clamped to the
  interval from 1 to 100.
\<close>

theorem score_formula:
  "score (fst (assessFromKB (input\<lparr>skillLevel := level_name s\<rparr>) k h)) =
     Num (min 100 (max 1
       (baseDifficulty (KB k) * 10
        + (if electrical (risk (KB k)) then 20 else 0)
        + (if plumbing (risk (KB k)) then 10 else 0)
        + (if workingAtHeight (risk (KB k)) then 10 else 0)
        - (skill_ordinal s - 1) * 10)))"
  by (simp add: assessFromKB_def assessJob_score skillNum_of_level_name)

text \<open>
  C2. For every catalog job and every valid skill level, the score is a number \<open>n\<close>,
  the decision is "Get a Pro" exactly when \<open>n > 60\<close> and "DIY" exactly when
  \<open>n \<le> 60\<close>, and the first element of the rationale is "This task appears feasible for
  your skill level." when the decision is DIY and "This task may be too challenging or
  risky for you." otherwise.
\<close>

theorem decision_threshold:
  "\<exists>n rest.
     score (fst (assessFromKB (input\<lparr>skillLevel := level_name s\<rparr>) k h)) = Num n
     \<and> (decision (fst (assessFromKB (input\<lparr>skillLevel := level_name s\<rparr>) k h)) = Get_a_Pro) = (n > 60)
     \<and> (decision (fst (assessFromKB (input\<lparr>skillLevel := level_name s\<rparr>) k h)) = DIY) = (n \<le> 60)
     \<and> arrays (snd (assessFromKB (input\<lparr>skillLevel := level_name s\<rparr>) k h))
          (rationale (fst (assessFromKB (input\<lparr>skillLevel := level_name s\<rparr>) k h)))
         = (if decision (fst (assessFromKB (input\<lparr>skillLevel := level_name s\<rparr>) k h)) = DIY
            then js ''This task appears feasible for your skill level.''
            else js ''This task may be too challenging or risky for you.'') # rest"
proof -
  let ?r = "assessJob (KB k) (input\<lparr>skillLevel := level_name s\<rparr>) h"
  obtain n where n: "score (fst ?r) = Num n"
    by (simp add: assessJob_score skillNum_of_level_name)
  have d: "decision (fst ?r) = (if n > 60 then Get_a_Pro else DIY)"
    using n by (simp add: assessJob_decision)
  show ?thesis
    unfolding assessFromKB_def
    using n d by (simp add: assessJob_refs assessJob_rationale)
qed

text \<open>
  C3. For every job definition whose baseDifficulty is an integer from 1 to 10, with any
  combination of the four risk flags, and for every valid skill level, the score is an
  integer in the interval from 1 to 100.
\<close>

theorem score_range:
  assumes "1 \<le> baseDifficulty job" and "baseDifficulty job \<le> 10"
  shows "\<exists>n. score (fst (assessJob job (input\<lparr>skillLevel := level_name s\<rparr>) h)) = Num n
             \<and> 1 \<le> n \<and> n \<le> 100"
  by (simp add: assessJob_score skillNum_of_level_name)

theorem score_range_witness:
  "1 \<le> baseDifficulty all_risks_job \<and> baseDifficulty all_risks_job \<le> 10
   \<and> (\<exists>n. score (fst (assessJob all_risks_job (blank_input\<lparr>skillLevel := level_name novice\<rparr>) KB_heap)) = Num n
            \<and> 1 \<le> n \<and> n \<le> 100)"
proof -
  have a: "1 \<le> baseDifficulty all_risks_job" and b: "baseDifficulty all_risks_job \<le> 10"
    by (simp_all add: all_risks_job_def)
  from score_range [OF a b, where input = blank_input and s = novice and h = KB_heap] a b show ?thesis by simp
qed

text \<open>
  C4. A \<open>skillLevel\<close> that is a string other than the three valid ones is not replaced
  by "novice": it reaches the scorer, where \<open>skillNum\<close> is not a number. For the
  description "replace a ceiling light fixture" without a provider, the level "expert"
  gives the score \<open>null\<close> and the decision "DIY", where "novice" gives the score 100 and
  the decision "Get a Pro".
\<close>

theorem invalid_skillLevel_not_defaulted:
  "AssessmentInput.skillLevel (normalise (light_body ''expert'')) = js ''expert''
   \<and> json_get (js ''score'') (body (fst (POST no_provider (light_body ''expert'') KB_heap)))
       = Some JNull
   \<and> json_get (js ''decision'') (body (fst (POST no_provider (light_body ''expert'') KB_heap)))
       = Some (JString (js ''DIY''))
   \<and> json_get (js ''score'') (body (fst (POST no_provider (light_body ''novice'') KB_heap)))
       = Some (JNumber 100)
   \<and> json_get (js ''decision'') (body (fst (POST no_provider (light_body ''novice'') KB_heap)))
       = Some (JString (js ''Get a Pro''))"
proof -
  have e: "skillNum_of (js ''expert'') = NaN" and n: "skillNum_of (js ''novice'') = Num 1"
    by (simp_all add: skillNum_of_def js_def)
  show ?thesis
    by (simp add: light_body_response json_get_output assessFromKB_def assessJob_decision
        assessJob_score skillLevel_light_body e n)
qed

text \<open>
  C5. When control reaches the fallback (no provider answer is returned) and the text of
  the normalised input matches none of the four patterns, the handler answers with status
  200 and exactly the fixed default: decision "Get a Pro", score 75, the two sentences of
  the rationale, empty steps, tools and materials, and the one safety note.
\<close>

theorem unknown_job_default:
  assumes "provider_path e (normalise b) = None"
    and "\<not> matches shelf_re (text_of (normalise b))"
    and "\<not> matches tap_re (text_of (normalise b))"
    and "\<not> matches paint_re (text_of (normalise b))"
    and "\<not> matches light_re (text_of (normalise b))"
  shows "fst (POST e b h) =
    \<lparr>body = JObject
       [(js ''decision'', JString (js ''Get a Pro'')),
        (js ''score'', JNumber 75),
        (js ''rationale'',
           JArray [JString (js ''Unable to match your description to our known jobs.''),
                   JString (js ''For ambiguous or unknown tasks, we err on the side of caution.'')]),
        (js ''steps'', JArray []),
        (js ''tools'', JArray []),
        (js ''materials'', JArray []),
        (js ''safety'',
           JArray [JString (js ''Please consult a professional or provide more details to get specific advice.'')])],
     status = 200\<rparr>"
proof -
  from assms(2-5) have "inferJob (normalise b) = None"
    by (simp add: inferJob_def)
  with assms(1) show ?thesis
    by (simp add: POST_fallback knowledge_base_path_unknown unknown_job_def)
qed

theorem unknown_job_default_witness:
  "provider_path no_provider (normalise unknown_body) = None
   \<and> \<not> matches shelf_re (text_of (normalise unknown_body))
   \<and> \<not> matches tap_re (text_of (normalise unknown_body))
   \<and> \<not> matches paint_re (text_of (normalise unknown_body))
   \<and> \<not> matches light_re (text_of (normalise unknown_body))
   \<and> body (fst (POST no_provider unknown_body KB_heap)) =
       JObject
        [(js ''decision'', JString (js ''Get a Pro'')),
         (js ''score'', JNumber 75),
         (js ''rationale'',
            JArray [JString (js ''Unable to match your description to our known jobs.''),
                    JString (js ''For ambiguous or unknown tasks, we err on the side of caution.'')]),
         (js ''steps'', JArray []),
         (js ''tools'', JArray []),
         (js ''materials'', JArray []),
         (js ''safety'',
            JArray [JString (js ''Please consult a professional or provide more details to get specific advice.'')])]
   \<and> status (fst (POST no_provider unknown_body KB_heap)) = 200"
proof -
  have p: "provider_path no_provider (normalise unknown_body) = None"
    by (simp add: provider_path_no_key no_provider_def)
  have s: "\<not> matches shelf_re (text_of (normalise unknown_body))"
    unfolding text_of_unknown_body by (simp add: shelf_re_def lit_def js_def)
  have t: "\<not> matches tap_re (text_of (normalise unknown_body))"
    unfolding text_of_unknown_body by (simp add: tap_re_def lit_def js_def is_space_def)
  have q: "\<not> matches paint_re (text_of (normalise unknown_body))"
    unfolding text_of_unknown_body by (simp add: paint_re_def lit_def js_def)
  have l: "\<not> matches light_re (text_of (normalise unknown_body))"
    unfolding text_of_unknown_body by (simp add: light_re_def lit_def js_def)
  from unknown_job_default [OF p s t q l, where h = KB_heap] p s t q l show ?thesis
    by simp
qed

text \<open>
  C6. The text that the classifier tests is the lower-cased concatenation of the
  description, a space, and the tags joined by spaces; lower-casing acts on each code
  unit, and joining puts the separator between consecutive tags. The classifier returns
  the first key, in the catalog's declaration order \<open>hang_shelf\<close>,
  \<open>replace_tap_washer\<close>, \<open>paint_wall\<close>, \<open>fit_light_fixture\<close>, one of whose keywords
  occurs in that text (for "o ring", with one white-space character or none between "o"
  and "ring"), and no key when none occurs; in particular a text that contains both
  "shelf" and "tap" gives \<open>hang_shelf\<close>.
\<close>

theorem first_match_wins:
  "text_of input =
     toLowerCase (description input @ js '' '' @
                  join (js '' '') (case tags input of None \<Rightarrow> [] | Some ts \<Rightarrow> ts))
   \<and> toLowerCase s =
       concat (map (\<lambda>c. if 0x41 \<le> c \<and> c \<le> 0x5A then [c + 0x20]
                         else if c = 0x130 then [0x69, 0x307]
                         else if c = 0x212A then [0x6B]
                         else [c]) s)
   \<and> join sep us = (case us of [] \<Rightarrow> [] | u # us' \<Rightarrow> u @ concat (map (\<lambda>v. sep @ v) us'))
   \<and> inferJob input =
       (if sublist (js ''shelf'') (text_of input) \<or> sublist (js ''bracket'') (text_of input)
           \<or> sublist (js ''wall anchor'') (text_of input)
        then Some hang_shelf
        else if sublist (js ''tap'') (text_of input) \<or> sublist (js ''washer'') (text_of input)
                \<or> sublist (js ''oring'') (text_of input)
                \<or> (\<exists>c. (c = 0x09 \<or> c = 0x0A \<or> c = 0x0B \<or> c = 0x0C \<or> c = 0x0D \<or> c = 0x20
                          \<or> c = 0xA0 \<or> c = 0x1680 \<or> (0x2000 \<le> c \<and> c \<le> 0x200A)
                          \<or> c = 0x2028 \<or> c = 0x2029 \<or> c = 0x202F \<or> c = 0x205F
                          \<or> c = 0x3000 \<or> c = 0xFEFF)
                         \<and> sublist (js ''o'' @ [c] @ js ''ring'') (text_of input))
        then Some replace_tap_washer
        else if sublist (js ''paint'') (text_of input) \<or> sublist (js ''roller'') (text_of input)
                \<or> sublist (js ''brush'') (text_of input)
        then Some paint_wall
        else if sublist (js ''light'') (text_of input) \<or> sublist (js ''fixture'') (text_of input)
                \<or> sublist (js ''ceiling'') (text_of input)
        then Some fit_light_fixture
        else None)
   \<and> inferJob input = find (\<lambda>k. matches (keyword_pattern k) (text_of input)) catalog_order
   \<and> (sublist (js ''shelf'') (text_of input) \<and> sublist (js ''tap'') (text_of input)
        \<longrightarrow> inferJob input = Some hang_shelf)"
proof (intro conjI)
  show "text_of input =
     toLowerCase (description input @ js '' '' @
                  join (js '' '') (case tags input of None \<Rightarrow> [] | Some ts \<Rightarrow> ts))"
    by (rule text_of_def)
  show "toLowerCase s =
       concat (map (\<lambda>c. if 0x41 \<le> c \<and> c \<le> 0x5A then [c + 0x20]
                         else if c = 0x130 then [0x69, 0x307]
                         else if c = 0x212A then [0x6B]
                         else [c]) s)"
    by (rule toLowerCase_units)
  show "join sep us = (case us of [] \<Rightarrow> [] | u # us' \<Rightarrow> u @ concat (map (\<lambda>v. sep @ v) us'))"
    by (rule join_separated)
  show "inferJob input =
       (if sublist (js ''shelf'') (text_of input) \<or> sublist (js ''bracket'') (text_of input)
           \<or> sublist (js ''wall anchor'') (text_of input)
        then Some hang_shelf
        else if sublist (js ''tap'') (text_of input) \<or> sublist (js ''washer'') (text_of input)
                \<or> sublist (js ''oring'') (text_of input)
                \<or> (\<exists>c. (c = 0x09 \<or> c = 0x0A \<or> c = 0x0B \<or> c = 0x0C \<or> c = 0x0D \<or> c = 0x20
                          \<or> c = 0xA0 \<or> c = 0x1680 \<or> (0x2000 \<le> c \<and> c \<le> 0x200A)
                          \<or> c = 0x2028 \<or> c = 0x2029 \<or> c = 0x202F \<or> c = 0x205F
                          \<or> c = 0x3000 \<or> c = 0xFEFF)
                         \<and> sublist (js ''o'' @ [c] @ js ''ring'') (text_of input))
        then Some replace_tap_washer
        else if sublist (js ''paint'') (text_of input) \<or> sublist (js ''roller'') (text_of input)
                \<or> sublist (js ''brush'') (text_of input)
        then Some paint_wall
        else if sublist (js ''light'') (text_of input) \<or> sublist (js ''fixture'') (text_of input)
                \<or> sublist (js ''ceiling'') (text_of input)
        then Some fit_light_fixture
        else None)"
    using inferJob_substrings [of input] unfolding is_space_def .
  show "inferJob input = find (\<lambda>k. matches (keyword_pattern k) (text_of input)) catalog_order"
    by (simp add: inferJob_def catalog_order_def)
  show "sublist (js ''shelf'') (text_of input) \<and> sublist (js ''tap'') (text_of input)
        \<longrightarrow> inferJob input = Some hang_shelf"
    by (simp add: inferJob_substrings)
qed

theorem first_match_wins_witness:
  "text_of shelf_tap_input = js ''put up a shelf above the tap''
   \<and> sublist (js ''shelf'') (text_of shelf_tap_input)
   \<and> sublist (js ''tap'') (text_of shelf_tap_input)
   \<and> inferJob shelf_tap_input = Some hang_shelf"
proof -
  have t: "text_of shelf_tap_input = js ''put up a shelf above the tap''"
    by (simp add: text_of_shelf_tap_input js_def)
  have a: "sublist (js ''shelf'') (text_of shelf_tap_input)"
    unfolding text_of_shelf_tap_input by (rule sublist_appendI)
  have "sublist (js ''tap'') ((js ''put up a '' @ js ''shelf'' @ js '' above the '') @ js ''tap'' @ [])"
    by (rule sublist_appendI)
  then have b: "sublist (js ''tap'') (text_of shelf_tap_input)"
    by (simp add: text_of_shelf_tap_input)
  from first_match_wins [where input = shelf_tap_input] t a b show ?thesis by blast
qed

text \<open>
  C7, as the handler has it. With a provider key set, an answer whose content
  \<open>JSON.parse\<close> accepts is returned as the response whatever its shape; when the call
  throws, or the content is absent or empty, or \<open>JSON.parse\<close> rejects it, the handler
  answers as the fallback does.
\<close>

theorem provider_answer_unchecked:
  assumes "OPENAI_API_KEY e = Some key" and "key \<noteq> []"
  shows
    "(create e key systemPrompt (userPrompt (normalise b)) = Content (Some c) \<and> c \<noteq> []
        \<and> JSON_parse e c = Some j
      \<longrightarrow> fst (POST e b h) = NextResponse_json j)
     \<and> (create e key systemPrompt (userPrompt (normalise b)) = Throws
          \<or> create e key systemPrompt (userPrompt (normalise b)) = Content None
          \<or> create e key systemPrompt (userPrompt (normalise b)) = Content (Some [])
          \<or> (create e key systemPrompt (userPrompt (normalise b)) = Content (Some c)
               \<and> JSON_parse e c = None)
         \<longrightarrow> fst (POST e b h) = fst (knowledge_base_path (normalise b) h))"
proof (intro conjI impI)
  assume "create e key systemPrompt (userPrompt (normalise b)) = Content (Some c) \<and> c \<noteq> []
          \<and> JSON_parse e c = Some j"
  then have "provider_path e (normalise b) = Some j"
    by (simp add: provider_path_key [OF assms])
  then show "fst (POST e b h) = NextResponse_json j"
    by (simp add: POST_provider)
next
  assume "create e key systemPrompt (userPrompt (normalise b)) = Throws
          \<or> create e key systemPrompt (userPrompt (normalise b)) = Content None
          \<or> create e key systemPrompt (userPrompt (normalise b)) = Content (Some [])
          \<or> (create e key systemPrompt (userPrompt (normalise b)) = Content (Some c)
               \<and> JSON_parse e c = None)"
  then have "provider_path e (normalise b) = None"
    by (auto simp: provider_path_key [OF assms])
  then show "fst (POST e b h) = fst (knowledge_base_path (normalise b) h)"
    by (simp add: POST_fallback)
qed

theorem provider_answer_unchecked_witness:
  "OPENAI_API_KEY empty_object_provider = Some (js ''sk-test'')
   \<and> js ''sk-test'' \<noteq> []
   \<and> create empty_object_provider (js ''sk-test'') systemPrompt (userPrompt (normalise shelf_body))
       = Content (Some (js ''{}''))
   \<and> js ''{}'' \<noteq> []
   \<and> JSON_parse empty_object_provider (js ''{}'') = Some (JObject [])
   \<and> fst (POST empty_object_provider shelf_body KB_heap) = NextResponse_json (JObject [])"
proof -
  have k: "js ''sk-test'' \<noteq> []" and c: "js ''{}'' \<noteq> []"
    by (simp_all add: js_def)
  from provider_answer_unchecked [OF empty_object_provider_simps(1) k,
      where b = shelf_body and c = "js ''{}''" and j = "JObject []" and h = KB_heap]
    k c empty_object_provider_simps
  show ?thesis by blast
qed

text \<open>
  The content \<open>{}\<close> is valid JSON without the AssessmentOutput shape; the handler
  returns the empty object, not the fallback's answer.
\<close>

theorem nonconforming_json_returned:
  "create empty_object_provider (js ''sk-test'') systemPrompt (userPrompt (normalise shelf_body))
     = Content (Some (js ''{}''))
   \<and> JSON_parse empty_object_provider (js ''{}'') = Some (JObject [])
   \<and> \<not> has_AssessmentOutput_shape (JObject [])
   \<and> fst (POST empty_object_provider shelf_body KB_heap) = NextResponse_json (JObject [])
   \<and> fst (POST empty_object_provider shelf_body KB_heap)
       \<noteq> fst (knowledge_base_path (normalise shelf_body) KB_heap)"
proof -
  have k: "js ''sk-test'' \<noteq> []" and c: "js ''{}'' \<noteq> []"
    by (simp_all add: js_def)
  have "provider_path empty_object_provider (normalise shelf_body) = Some (JObject [])"
    using c by (simp add: provider_path_key [OF empty_object_provider_simps(1) k]
        empty_object_provider_simps)
  then have p: "fst (POST empty_object_provider shelf_body KB_heap) = NextResponse_json (JObject [])"
    by (simp add: POST_provider)
  have f: "NextResponse_json (JObject []) \<noteq> fst (knowledge_base_path (normalise shelf_body) KB_heap)"
    by (simp add: knowledge_base_path_match [OF inferJob_shelf_body] NextResponse_json_def
        json_of_output_def)
  have s: "\<not> has_AssessmentOutput_shape (JObject [])"
    by (simp add: has_AssessmentOutput_shape_def)
  from p f s show ?thesis
    by (simp add: empty_object_provider_simps)
qed

text \<open>
  C8, as the scorer has it. In a store with the catalog loaded, for every job key and
  every valid skill level, the arrays that the output's \<open>steps\<close>, \<open>tools\<close>,
  \<open>materials\<close> and \<open>safety\<close> refer to hold the catalog's elements in the catalog's
  order; the four references are the catalog's own, so the arrays are shared with the
  catalog, not copied.
\<close>

theorem catalog_arrays_shared:
  assumes "catalog_loaded h"
    and "assessFromKB (input\<lparr>skillLevel := level_name s\<rparr>) k h = (out, h')"
  shows "arrays h' (steps out) = KB_steps k
       \<and> arrays h' (tools out) = KB_tools k
       \<and> arrays h' (materials out) = KB_materials k
       \<and> arrays h' (safety out) = KB_safety k
       \<and> steps out = JobDefinition.steps (KB k)
       \<and> tools out = JobDefinition.tools (KB k)
       \<and> materials out = JobDefinition.materials (KB k)
       \<and> safety out = JobDefinition.safety (KB k)"
proof -
  let ?r = "assessJob (KB k) (input\<lparr>skillLevel := level_name s\<rparr>) h"
  from assms(2) have out: "out = fst ?r" and h': "h' = snd ?r"
    by (simp_all add: assessFromKB_def)
  show ?thesis
    unfolding out h'
    by (simp add: assessJob_refs assessJob_keeps_catalog [OF assms(1)] KB_addresses KB_heap_arrays)
qed

theorem catalog_arrays_shared_witness:
  "catalog_loaded KB_heap
   \<and> assessFromKB (blank_input\<lparr>skillLevel := level_name advanced\<rparr>) replace_tap_washer KB_heap
       = (fst (assessFromKB (blank_input\<lparr>skillLevel := level_name advanced\<rparr>) replace_tap_washer KB_heap),
          snd (assessFromKB (blank_input\<lparr>skillLevel := level_name advanced\<rparr>) replace_tap_washer KB_heap))
   \<and> arrays (snd (assessFromKB (blank_input\<lparr>skillLevel := level_name advanced\<rparr>) replace_tap_washer KB_heap))
        (steps (fst (assessFromKB (blank_input\<lparr>skillLevel := level_name advanced\<rparr>) replace_tap_washer KB_heap)))
       = replace_tap_washer_steps
   \<and> steps (fst (assessFromKB (blank_input\<lparr>skillLevel := level_name advanced\<rparr>) replace_tap_washer KB_heap)) = 4
   \<and> JobDefinition.steps (KB replace_tap_washer) = 4"
proof -
  let ?r = "assessFromKB (blank_input\<lparr>skillLevel := level_name advanced\<rparr>) replace_tap_washer KB_heap"
  have p: "?r = (fst ?r, snd ?r)" by simp
  note c = catalog_arrays_shared [OF catalog_loaded_KB_heap p]
  from c have "arrays (snd ?r) (steps (fst ?r)) = KB_steps replace_tap_washer"
    by (rule conjunct1)
  then have s1: "arrays (snd ?r) (steps (fst ?r)) = replace_tap_washer_steps"
    by (simp only: KB_steps.simps)
  from c have "steps (fst ?r) = JobDefinition.steps (KB replace_tap_washer)"
    by blast
  moreover have s3: "JobDefinition.steps (KB replace_tap_washer) = 4"
    by simp
  ultimately have s2: "steps (fst ?r) = 4"
    by (simp only:)
  from catalog_loaded_KB_heap p s1 s2 s3 show ?thesis
    by blast
qed

text \<open>
  The output's \<open>steps\<close> is the address of the catalog's array: an element pushed
  through the output appears in the catalog's \<open>steps\<close> of \<open>hang_shelf\<close>.
\<close>

theorem output_aliases_catalog:
  "steps (fst (assessFromKB (blank_input\<lparr>skillLevel := js ''novice''\<rparr>) hang_shelf KB_heap))
     = JobDefinition.steps (KB hang_shelf)
   \<and> arrays (snd (assessFromKB (blank_input\<lparr>skillLevel := js ''novice''\<rparr>) hang_shelf KB_heap))
        (JobDefinition.steps (KB hang_shelf)) = hang_shelf_steps
   \<and> arrays
        (push (steps (fst (assessFromKB (blank_input\<lparr>skillLevel := js ''novice''\<rparr>) hang_shelf KB_heap)))
              (js ''Load it at once.'')
              (snd (assessFromKB (blank_input\<lparr>skillLevel := js ''novice''\<rparr>) hang_shelf KB_heap)))
        (JobDefinition.steps (KB hang_shelf))
       = hang_shelf_steps @ [js ''Load it at once.'']"
proof -
  let ?r = "assessJob (KB hang_shelf) (blank_input\<lparr>skillLevel := js ''novice''\<rparr>) KB_heap"
  have a: "steps (fst ?r) = 0"
    by (simp add: assessJob_refs)
  have b: "arrays (snd ?r) 0 = hang_shelf_steps"
    using assessJob_keeps_catalog [OF catalog_loaded_KB_heap, of 0] KB_heap_arrays(1) [of hang_shelf]
    by simp
  have c: "JobDefinition.steps (KB hang_shelf) = 0"
    by simp
  show ?thesis
    unfolding assessFromKB_def a c using b by (simp add: push_def del: KB.simps)
qed

text \<open>
  C9. The scorer never reads the structural flag: two job definitions that differ only
  in that flag get, for every valid skill level, the same output and the same store
  (so the same score, decision and rationale).
\<close>

theorem structural_not_read:
  "assessJob (job\<lparr>risk := (risk job)\<lparr>structural := b\<rparr>\<rparr>) (input\<lparr>skillLevel := level_name s\<rparr>) h
     = assessJob job (input\<lparr>skillLevel := level_name s\<rparr>) h"
  by (simp add: assessJob_def)

text \<open>
  C10. Each pattern matches wherever one of its alternatives occurs as a substring, with
  no test of word boundaries, and the tap pattern is tested before the paint pattern: a
  text that contains "tap" and does not match the shelf pattern gives
  \<open>replace_tap_washer\<close>. The description "use masking tape before you paint the wall" has "tap" at one position
  only, inside the word "tape"; it matches the paint pattern, and the classifier returns
  \<open>replace_tap_washer\<close>.
\<close>

theorem tap_inside_tape:
  "(matches shelf_re t =
      (sublist (js ''shelf'') t \<or> sublist (js ''bracket'') t \<or> sublist (js ''wall anchor'') t))
   \<and> (matches tap_re t =
      (sublist (js ''tap'') t \<or> sublist (js ''washer'') t \<or> sublist (js ''oring'') t
       \<or> (\<exists>c. is_space c \<and> sublist (js ''o'' @ [c] @ js ''ring'') t)))
   \<and> (matches paint_re t =
      (sublist (js ''paint'') t \<or> sublist (js ''roller'') t \<or> sublist (js ''brush'') t))
   \<and> (matches light_re t =
      (sublist (js ''light'') t \<or> sublist (js ''fixture'') t \<or> sublist (js ''ceiling'') t))
   \<and> (sublist (js ''tap'') (text_of input) \<and> \<not> matches shelf_re (text_of input)
        \<longrightarrow> inferJob input = Some replace_tap_washer)
   \<and> text_of tape_input = js ''use masking tape before you paint the wall ''
   \<and> occurrences (js ''tap'') (text_of tape_input) 0 = [12]
   \<and> take 6 (drop 11 (text_of tape_input)) = js '' tape ''
   \<and> matches paint_re (text_of tape_input)
   \<and> inferJob tape_input = Some replace_tap_washer"
proof (intro conjI)
  show "matches shelf_re t =
      (sublist (js ''shelf'') t \<or> sublist (js ''bracket'') t \<or> sublist (js ''wall anchor'') t)"
    by (rule shelf_re_iff)
  show "matches tap_re t =
      (sublist (js ''tap'') t \<or> sublist (js ''washer'') t \<or> sublist (js ''oring'') t
       \<or> (\<exists>c. is_space c \<and> sublist (js ''o'' @ [c] @ js ''ring'') t))"
    by (rule tap_re_iff)
  show "matches paint_re t =
      (sublist (js ''paint'') t \<or> sublist (js ''roller'') t \<or> sublist (js ''brush'') t)"
    by (rule paint_re_iff)
  show "matches light_re t =
      (sublist (js ''light'') t \<or> sublist (js ''fixture'') t \<or> sublist (js ''ceiling'') t)"
    by (rule light_re_iff)
  have first: "sublist (js ''tap'') (text_of i) \<and> \<not> matches shelf_re (text_of i)
        \<longrightarrow> inferJob i = Some replace_tap_washer" for i
    by (simp add: inferJob_def tap_re_iff)
  from first show "sublist (js ''tap'') (text_of input) \<and> \<not> matches shelf_re (text_of input)
        \<longrightarrow> inferJob input = Some replace_tap_washer" .
  show "text_of tape_input = js ''use masking tape before you paint the wall ''"
    by (rule text_of_tape_input)
  show "occurrences (js ''tap'') (text_of tape_input) 0 = [12]"
    by (rule tape_occurrences)
  show "take 6 (drop 11 (text_of tape_input)) = js '' tape ''"
    by (rule tape_word)
  show "matches paint_re (text_of tape_input)"
    by (rule tape_paint)
  have "sublist (js ''tap'') (js ''use masking '' @ js ''tap'' @ js ''e before you paint the wall '')"
    by (rule sublist_appendI)
  then have "sublist (js ''tap'') (text_of tape_input)"
    by (simp add: text_of_tape_input js_def)
  with first [of tape_input] tape_no_shelf
  show "inferJob tape_input = Some replace_tap_washer"
    by blast
qed

theorem tap_inside_tape_witness:
  "sublist (js ''tap'') (text_of tape_input) \<and> \<not> matches shelf_re (text_of tape_input)
   \<and> inferJob tape_input = Some replace_tap_washer"
proof -
  have "sublist (js ''tap'') (js ''use masking '' @ js ''tap'' @ js ''e before you paint the wall '')"
    by (rule sublist_appendI)
  then have "sublist (js ''tap'') (text_of tape_input)"
    by (simp add: text_of_tape_input js_def)
  with tap_inside_tape [of "[]" tape_input] tape_no_shelf show ?thesis by blast
qed

end
